theory Spec2Isabelle
  imports Complex_Main "HOL-Library.Char_ord" "HOL-Library.Sublist"
begin

section \<open>Text primitives of the Python runtime\<close>

text \<open>
  A Python \<open>str\<close> is modelled as a \<open>string\<close>, the list of the bytes of its UTF-8
  encoding. On ASCII text a byte is a character and the model follows Python character by
  character. The character classes below are the ASCII parts of Python's classes: a byte
  above 0x7F is neither whitespace nor a word character nor a cased letter.
\<close>

definition is_space :: "char \<Rightarrow> bool" where
  \<comment> \<open>\<open>str.isspace\<close>, the class \<open>\s\<close> of \<open>re\<close> and what \<open>strip()\<close>/\<open>split()\<close> remove:
      TAB, LF, VT, FF, CR, FS, GS, RS, US and the blank.\<close>
  "is_space c = (c \<in> {CHR 0x09, CHR 0x0A, CHR 0x0B, CHR 0x0C, CHR 0x0D,
                       CHR 0x1C, CHR 0x1D, CHR 0x1E, CHR 0x1F, CHR '' ''})"

definition is_word :: "char \<Rightarrow> bool" where
  \<comment> \<open>The class \<open>\w\<close>: letters, digits and the underscore.\<close>
  "is_word c = ((CHR ''a'' \<le> c \<and> c \<le> CHR ''z'') \<or> (CHR ''A'' \<le> c \<and> c \<le> CHR ''Z'')
               \<or> (CHR ''0'' \<le> c \<and> c \<le> CHR ''9'') \<or> c = CHR ''_'')"

definition is_blank :: "char \<Rightarrow> bool" where
  \<comment> \<open>The class \<open>[ \t]\<close>.\<close>
  "is_blank c = (c = CHR '' '' \<or> c = CHR 0x09)"

definition is_newline :: "char \<Rightarrow> bool" where
  "is_newline c = (c = CHR 0x0A)"

definition strip :: "string \<Rightarrow> string" where
  \<comment> \<open>\<open>s.strip()\<close>: leading and trailing whitespace removed.\<close>
  "strip s = rev (dropWhile is_space (rev (dropWhile is_space s)))"



definition to_upper :: "char \<Rightarrow> char" where
  "to_upper c =
     (case map_of (zip ''abcdefghijklmnopqrstuvwxyz'' ''ABCDEFGHIJKLMNOPQRSTUVWXYZ'') c of
        Some u \<Rightarrow> u | None \<Rightarrow> c)"

definition to_lower :: "char \<Rightarrow> char" where
  "to_lower c =
     (case map_of (zip ''ABCDEFGHIJKLMNOPQRSTUVWXYZ'' ''abcdefghijklmnopqrstuvwxyz'') c of
        Some l \<Rightarrow> l | None \<Rightarrow> c)"

fun capitalize :: "string \<Rightarrow> string" where
  \<comment> \<open>\<open>s.capitalize()\<close>: the first character upper case, the others lower case.\<close>
  "capitalize [] = []"
| "capitalize (c # cs) = to_upper c # map to_lower cs"

fun join :: "string \<Rightarrow> string list \<Rightarrow> string" where
  \<comment> \<open>\<open>sep.join(parts)\<close>.\<close>
  "join sep [] = []"
| "join sep [x] = x"
| "join sep (x # y # ys) = x @ sep @ join sep (y # ys)"

section \<open>Word error rate (\<open>wer.py\<close>)\<close>










section \<open>JSON values and \<open>json.loads\<close>\<close>

text \<open>
  The values \<open>json.loads\<close> returns. An object is a Python \<open>dict\<close>: an association list
  with distinct keys, in the order of first insertion, where a repeated key of the text
  keeps its last value. A number with a fraction or an exponent is a Python \<open>float\<close>: the
  model keeps whether it is non-zero and the text of the literal, and does no binary
  floating point. The interpreter's limits (recursion depth, digits of an integer) are
  not modelled.
\<close>

datatype json =
    JNull
  | JBool bool
  | JInt int
  | JFloat bool string
  | JStr string
  | JArr "json list"
  | JObj "(string \<times> json) list"

fun dict_set :: "string \<Rightarrow> json \<Rightarrow> (string \<times> json) list \<Rightarrow> (string \<times> json) list" where
  \<comment> \<open>\<open>d[k] = v\<close>: a key that is present keeps its place and takes the new value.\<close>
  "dict_set k v [] = [(k, v)]"
| "dict_set k v ((k', v') # d) = (if k = k' then (k, v) # d else (k', v') # dict_set k v d)"

definition dict_of :: "(string \<times> json) list \<Rightarrow> (string \<times> json) list" where
  \<comment> \<open>\<open>dict(pairs)\<close>\<close>
  "dict_of pairs = foldl (\<lambda>d (k, v). dict_set k v d) [] pairs"

definition dict_get :: "(string \<times> json) list \<Rightarrow> string \<Rightarrow> json option" where
  \<comment> \<open>\<open>d.get(k)\<close>; \<open>None\<close> when \<open>k not in d\<close>.\<close>
  "dict_get d k = map_of d k"

definition is_json_ws :: "char \<Rightarrow> bool" where
  "is_json_ws c = (c = CHR '' '' \<or> c = CHR 0x09 \<or> c = CHR 0x0A \<or> c = CHR 0x0D)"

definition skip_ws :: "string \<Rightarrow> string" where
  "skip_ws s = dropWhile is_json_ws s"

definition is_digit :: "char \<Rightarrow> bool" where
  "is_digit c = (CHR ''0'' \<le> c \<and> c \<le> CHR ''9'')"

definition hex_val :: "char \<Rightarrow> nat option" where
  "hex_val c =
     map_of (zip ''0123456789abcdef'' [0, 1, 2, 3, 4, 5, 6, 7, 8, 9, 10, 11, 12, 13, 14, 15]
             @ zip ''ABCDEF'' [10, 11, 12, 13, 14, 15]) c"

definition digit_val :: "char \<Rightarrow> nat" where
  "digit_val c = (case hex_val c of Some n \<Rightarrow> n | None \<Rightarrow> 0)"

definition int_of_digits :: "string \<Rightarrow> int" where
  "int_of_digits ds = foldl (\<lambda>n c. 10 * n + int (digit_val c)) 0 ds"

definition strip_prefix :: "string \<Rightarrow> string \<Rightarrow> string option" where
  "strip_prefix p s = (if take (length p) s = p then Some (drop (length p) s) else None)"

subsection \<open>Numbers\<close>

definition scan_int_part :: "string \<Rightarrow> (string \<times> string) option" where
  \<comment> \<open>\<open>0\<close>, or a digit from 1 to 9 and the digits after it.\<close>
  "scan_int_part s =
     (case s of
        [] \<Rightarrow> None
      | c # cs \<Rightarrow>
          if c = CHR ''0'' then Some ([c], cs)
          else if is_digit c then Some (takeWhile is_digit s, dropWhile is_digit s)
          else None)"

definition scan_frac :: "string \<Rightarrow> string \<times> string" where
  \<comment> \<open>A point and at least one digit, or nothing.\<close>
  "scan_frac s =
     (case s of
        c # d # cs \<Rightarrow>
          if c = CHR ''.'' \<and> is_digit d
          then (takeWhile is_digit (d # cs), dropWhile is_digit (d # cs))
          else ([], s)
      | _ \<Rightarrow> ([], s))"

definition scan_exp :: "string \<Rightarrow> int option \<times> string" where
  \<comment> \<open>\<open>e\<close> or \<open>E\<close>, a sign or none, and at least one digit, or nothing.\<close>
  "scan_exp s =
     (case s of
        [] \<Rightarrow> (None, s)
      | e # cs \<Rightarrow>
          if e = CHR ''e'' \<or> e = CHR ''E'' then
            (let neg = (cs \<noteq> [] \<and> hd cs = CHR ''-'');
                 ds = (if cs \<noteq> [] \<and> (hd cs = CHR ''-'' \<or> hd cs = CHR ''+'') then tl cs else cs)
             in if ds \<noteq> [] \<and> is_digit (hd ds)
                then (Some ((if neg then - 1 else 1) * int_of_digits (takeWhile is_digit ds)),
                      dropWhile is_digit ds)
                else (None, s))
          else (None, s))"

definition float_nonzero :: "string \<Rightarrow> string \<Rightarrow> int option \<Rightarrow> bool" where
  \<comment> \<open>Whether the decimal rounds to a binary64 other than zero: whether it is above
      \<open>2 ^ -1075\<close>, half of the least positive binary64.\<close>
  "float_nonzero ds fs ex =
     (let m = int_of_digits (ds @ fs);
          e = (case ex of None \<Rightarrow> 0 | Some x \<Rightarrow> x) - int (length fs)
      in m \<noteq> 0 \<and> (0 \<le> e \<or> 10 ^ nat (- e) < m * 2 ^ 1075))"

definition scan_number :: "string \<Rightarrow> (json \<times> string) option" where
  "scan_number s =
     (let neg = (s \<noteq> [] \<and> hd s = CHR ''-'');
          s1 = (if neg then tl s else s)
      in case scan_int_part s1 of
           None \<Rightarrow> None
         | Some (ds, r1) \<Rightarrow>
             (case scan_frac r1 of
                (fs, r2) \<Rightarrow>
                  (case scan_exp r2 of
                     (ex, r3) \<Rightarrow>
                       if fs = [] \<and> ex = None
                       then Some (JInt ((if neg then - 1 else 1) * int_of_digits ds), r3)
                       else Some (JFloat (float_nonzero ds fs ex)
                                    (take (length s - length r3) s), r3))))"

definition scan_literal :: "string \<Rightarrow> (json \<times> string) option" where
  "scan_literal s =
     (case strip_prefix ''null'' s of Some r \<Rightarrow> Some (JNull, r) | None \<Rightarrow>
     (case strip_prefix ''true'' s of Some r \<Rightarrow> Some (JBool True, r) | None \<Rightarrow>
     (case strip_prefix ''false'' s of Some r \<Rightarrow> Some (JBool False, r) | None \<Rightarrow>
     (case strip_prefix ''NaN'' s of Some r \<Rightarrow> Some (JFloat True ''nan'', r) | None \<Rightarrow>
     (case strip_prefix ''Infinity'' s of Some r \<Rightarrow> Some (JFloat True ''inf'', r) | None \<Rightarrow>
     (case strip_prefix ''-Infinity'' s of Some r \<Rightarrow> Some (JFloat True ''-inf'', r) | None \<Rightarrow>
        None))))))"

subsection \<open>Strings\<close>

definition utf8 :: "nat \<Rightarrow> string" where
  \<comment> \<open>The bytes of a code point; a lone surrogate takes the three-byte form.\<close>
  "utf8 cp =
     (if cp < 0x80 then [char_of cp]
      else if cp < 0x800 then [char_of (0xC0 + cp div 64), char_of (0x80 + cp mod 64)]
      else if cp < 0x10000 then
        [char_of (0xE0 + cp div 4096), char_of (0x80 + cp div 64 mod 64), char_of (0x80 + cp mod 64)]
      else
        [char_of (0xF0 + cp div 262144), char_of (0x80 + cp div 4096 mod 64),
         char_of (0x80 + cp div 64 mod 64), char_of (0x80 + cp mod 64)])"

definition hex4 :: "string \<Rightarrow> nat option" where
  "hex4 s =
     (if length s = 4 \<and> list_all (\<lambda>c. hex_val c \<noteq> None) s
      then Some (foldl (\<lambda>n c. 16 * n + digit_val c) 0 s)
      else None)"

definition simple_escape :: "char \<Rightarrow> char option" where
  "simple_escape e =
     map_of [(CHR 0x22, CHR 0x22), (CHR 0x5C, CHR 0x5C), (CHR ''/'', CHR ''/''),
             (CHR ''b'', CHR 0x08), (CHR ''f'', CHR 0x0C), (CHR ''n'', CHR 0x0A),
             (CHR ''r'', CHR 0x0D), (CHR ''t'', CHR 0x09)] e"

definition unicode_escape :: "string \<Rightarrow> (string \<times> string) option" where
  \<comment> \<open>The text after \<open>\u\<close>: four hex digits, joined with a low surrogate escape that
      follows a high surrogate.\<close>
  "unicode_escape r =
     (case hex4 (take 4 r) of
        None \<Rightarrow> None
      | Some hi \<Rightarrow>
          (let r1 = drop 4 r in
           if 0xD800 \<le> hi \<and> hi \<le> 0xDBFF \<and> take 2 r1 = [CHR 0x5C, CHR ''u'']
           then (case hex4 (take 4 (drop 2 r1)) of
                   None \<Rightarrow> None
                 | Some lo \<Rightarrow>
                     if 0xDC00 \<le> lo \<and> lo \<le> 0xDFFF
                     then Some (utf8 (0x10000 + (hi - 0xD800) * 1024 + (lo - 0xDC00)), drop 6 r1)
                     else Some (utf8 hi, r1))
           else Some (utf8 hi, r1)))"

definition string_item :: "string \<Rightarrow> (string \<times> string) option" where
  \<comment> \<open>One character of a string literal, or one escape sequence.\<close>
  "string_item s =
     (case s of
        [] \<Rightarrow> None
      | c # cs \<Rightarrow>
          if c = CHR 0x5C then
            (case cs of
               [] \<Rightarrow> None
             | e # r \<Rightarrow>
                 if e = CHR ''u'' then unicode_escape r
                 else (case simple_escape e of None \<Rightarrow> None | Some x \<Rightarrow> Some ([x], r)))
          else if c \<le> CHR 0x1F then None
          else Some ([c], cs))"

lemma unicode_escape_shorter: "unicode_escape r = Some (bs, rest) \<Longrightarrow> length rest \<le> length r"
  by (auto simp: unicode_escape_def Let_def split: option.splits if_splits)

lemma string_item_shorter: "string_item s = Some (bs, rest) \<Longrightarrow> length rest < length s"
  by (auto simp: string_item_def split: list.splits if_splits option.splits
           dest: unicode_escape_shorter)

function scan_string :: "string \<Rightarrow> (string \<times> string) option" where
  \<comment> \<open>The text after the opening quote, up to the closing one.\<close>
  "scan_string [] = None"
| "scan_string (c # cs) =
     (if c = CHR 0x22 then Some ([], cs)
      else (case string_item (c # cs) of
              None \<Rightarrow> None
            | Some (bs, rest) \<Rightarrow>
                (case scan_string rest of
                   None \<Rightarrow> None
                 | Some (t, r) \<Rightarrow> Some (bs @ t, r))))"
  by pat_completeness auto
termination
  by (relation "measure length") (auto dest: string_item_shorter)

subsection \<open>Values\<close>

text \<open>
  The scanner recurses into arrays and objects. The first argument bounds the number of
  calls; \<open>json_loads\<close> starts with more than a text of its length can use, since two calls
  in a row read at least one character.
\<close>

fun scan_value :: "nat \<Rightarrow> string \<Rightarrow> (json \<times> string) option"
and scan_items :: "nat \<Rightarrow> string \<Rightarrow> (json list \<times> string) option"
and scan_members :: "nat \<Rightarrow> string \<Rightarrow> ((string \<times> json) list \<times> string) option"
where
  "scan_value 0 s = None"
| "scan_value (Suc k) [] = None"
| "scan_value (Suc k) (c # cs) =
     (if c = CHR 0x22 then
        (case scan_string cs of None \<Rightarrow> None | Some (t, r) \<Rightarrow> Some (JStr t, r))
      else if c = CHR ''{'' then
        (case skip_ws cs of
           [] \<Rightarrow> None
         | d # ds \<Rightarrow>
             if d = CHR ''}'' then Some (JObj [], ds)
             else (case scan_members k (d # ds) of
                     None \<Rightarrow> None
                   | Some (kvs, r) \<Rightarrow> Some (JObj (dict_of kvs), r)))
      else if c = CHR ''['' then
        (case skip_ws cs of
           [] \<Rightarrow> None
         | d # ds \<Rightarrow>
             if d = CHR '']'' then Some (JArr [], ds)
             else (case scan_items k (d # ds) of
                     None \<Rightarrow> None
                   | Some (vs, r) \<Rightarrow> Some (JArr vs, r)))
      else (case scan_literal (c # cs) of
              Some res \<Rightarrow> Some res
            | None \<Rightarrow> scan_number (c # cs)))"
| "scan_items 0 s = None"
| "scan_items (Suc k) s =
     (case scan_value k s of
        None \<Rightarrow> None
      | Some (v, r) \<Rightarrow>
          (case skip_ws r of
             [] \<Rightarrow> None
           | d # ds \<Rightarrow>
               if d = CHR '']'' then Some ([v], ds)
               else if d = CHR '','' then
                 (case scan_items k (skip_ws ds) of
                    None \<Rightarrow> None
                  | Some (vs, r') \<Rightarrow> Some (v # vs, r'))
               else None))"
| "scan_members 0 s = None"
| "scan_members (Suc k) [] = None"
| "scan_members (Suc k) (q # cs) =
     (if q \<noteq> CHR 0x22 then None
      else (case scan_string cs of
              None \<Rightarrow> None
            | Some (key, r) \<Rightarrow>
                (case skip_ws r of
                   [] \<Rightarrow> None
                 | colon # r1 \<Rightarrow>
                     if colon \<noteq> CHR '':'' then None
                     else (case scan_value k (skip_ws r1) of
                             None \<Rightarrow> None
                           | Some (v, r2) \<Rightarrow>
                               (case skip_ws r2 of
                                  [] \<Rightarrow> None
                                | d # ds \<Rightarrow>
                                    if d = CHR ''}'' then Some ([(key, v)], ds)
                                    else if d = CHR '','' then
                                      (case scan_members k (skip_ws ds) of
                                         None \<Rightarrow> None
                                       | Some (kvs, r') \<Rightarrow> Some ((key, v) # kvs, r'))
                                    else None)))))"

definition json_loads :: "string \<Rightarrow> json option" where
  \<comment> \<open>\<open>json.loads(text)\<close>; \<open>None\<close> is the exception it raises on a text that is not one
      JSON value. A text that starts with a byte order mark is refused.\<close>
  "json_loads s =
     (if take 3 s = [CHR 0xEF, CHR 0xBB, CHR 0xBF] then None
      else (case scan_value (2 * length s + 2) (skip_ws s) of
              None \<Rightarrow> None
            | Some (v, rest) \<Rightarrow> if skip_ws rest = [] then Some v else None))"

section \<open>Truth value and \<open>str()\<close> of a decoded value\<close>

fun py_truthy :: "json \<Rightarrow> bool" where
  \<comment> \<open>\<open>bool(v)\<close>\<close>
  "py_truthy JNull = False"
| "py_truthy (JBool b) = b"
| "py_truthy (JInt i) = (i \<noteq> 0)"
| "py_truthy (JFloat nonzero lit) = nonzero"
| "py_truthy (JStr s) = (s \<noteq> [])"
| "py_truthy (JArr vs) = (vs \<noteq> [])"
| "py_truthy (JObj d) = (d \<noteq> [])"

definition digit_char :: "nat \<Rightarrow> char" where
  "digit_char n = ''0123456789abcdef'' ! n"

function digits_of :: "nat \<Rightarrow> string" where
  "digits_of n = (if n < 10 then [digit_char n] else digits_of (n div 10) @ [digit_char (n mod 10)])"
  by pat_completeness auto
termination
  by (relation "measure id") auto

declare digits_of.simps [simp del]

definition str_int :: "int \<Rightarrow> string" where
  "str_int i = (if i < 0 then ''-'' @ digits_of (nat (- i)) else digits_of (nat i))"

definition repr_char :: "char \<Rightarrow> char \<Rightarrow> string" where
  "repr_char q c =
     (if c = q \<or> c = CHR 0x5C then [CHR 0x5C, c]
      else if c = CHR 0x09 then [CHR 0x5C, CHR ''t'']
      else if c = CHR 0x0A then [CHR 0x5C, CHR ''n'']
      else if c = CHR 0x0D then [CHR 0x5C, CHR ''r'']
      else if c < CHR '' '' \<or> c = CHR 0x7F
      then [CHR 0x5C, CHR ''x'', digit_char (of_char c div 16), digit_char (of_char c mod 16)]
      else [c])"

definition repr_str :: "string \<Rightarrow> string" where
  \<comment> \<open>\<open>repr(s)\<close>: single quotes, or double quotes when \<open>s\<close> has a single quote and no
      double quote.\<close>
  "repr_str s =
     (let q = (if CHR 0x27 \<in> set s \<and> CHR 0x22 \<notin> set s then CHR 0x22 else CHR 0x27)
      in [q] @ concat (map (repr_char q) s) @ [q])"

fun py_repr :: "json \<Rightarrow> string" where
  \<comment> \<open>\<open>repr(v)\<close>. A float is printed as the literal it was read from, which is Python's
      text for a literal in its shortest form (\<open>1.5\<close>, \<open>0.25\<close>) and not for the others.\<close>
  "py_repr JNull = ''None''"
| "py_repr (JBool b) = (if b then ''True'' else ''False'')"
| "py_repr (JInt i) = str_int i"
| "py_repr (JFloat nonzero lit) = lit"
| "py_repr (JStr s) = repr_str s"
| "py_repr (JArr vs) = ''['' @ join '', '' (map py_repr vs) @ '']''"
| "py_repr (JObj d) =
     ''{'' @ join '', '' (map (\<lambda>kv. repr_str (fst kv) @ '': '' @ py_repr (snd kv)) d) @ ''}''"

definition py_str :: "json \<Rightarrow> string" where
  \<comment> \<open>\<open>str(v)\<close>: a string is itself, any other value is printed as \<open>repr\<close> does.\<close>
  "py_str v = (case v of JStr s \<Rightarrow> s | _ \<Rightarrow> py_repr v)"

section \<open>The generation client (\<open>conversational_assistant.py\<close>)\<close>

text \<open>
  What the outside world does with a prompt and a model name is an argument of the model:
  the functions \<open>post\<close> and \<open>run\<close> below. For the HTTP transport: \<open>requests.post\<close> raises, or
  \<open>raise_for_status\<close> raises, or the body is delivered by \<open>iter_lines\<close> as lines of text,
  where the connection may break at any point. For the command line transport:
  \<open>subprocess.run\<close> does not find the program, cannot start it for another reason, runs
  out of its 60 seconds, or the program exits with a return code and its two output
  streams. Every exception of the HTTP path is a subclass of \<open>Exception\<close>.
\<close>

datatype exn = RequestException | TimeoutExpired | OSError | PortAudioError

datatype chunk = Line string | Broken

datatype http_run = PostRaised | BadStatus | Body "chunk list"

datatype cli_run = NotFound | SpawnFailed | TimedOut | Exited int string string

fun aggregate :: "chunk list \<Rightarrow> string list \<Rightarrow> exn + string list" where
  \<comment> \<open>The \<open>for raw in resp.iter_lines(...)\<close> loop, with the list \<open>pieces\<close>.\<close>
  "aggregate [] pieces = Inr pieces"
| "aggregate (Broken # rest) pieces = Inl RequestException"
| "aggregate (Line raw # rest) pieces =
     (if raw = [] then aggregate rest pieces
      else (case json_loads raw of
              None \<Rightarrow> aggregate rest (pieces @ [raw])
            | Some obj \<Rightarrow>
                (let pieces' =
                       (case obj of
                          JObj d \<Rightarrow>
                            (case dict_get d ''response'' of
                               Some part \<Rightarrow>
                                 pieces @ [py_str (if py_truthy part then part else JStr [])]
                             | None \<Rightarrow> pieces)
                        | _ \<Rightarrow> pieces);
                     finished =
                       (case obj of
                          JObj d \<Rightarrow>
                            (case dict_get d ''done'' of
                               Some flag \<Rightarrow> py_truthy flag
                             | None \<Rightarrow> False)
                        | _ \<Rightarrow> False)
                 in if finished then Inr pieces' else aggregate rest pieces')))"

definition query_ollama_http :: "(string \<Rightarrow> string \<Rightarrow> http_run) \<Rightarrow> string \<Rightarrow> string \<Rightarrow> exn + string" where
  "query_ollama_http post prompt model =
     (case post prompt model of
        PostRaised \<Rightarrow> Inl RequestException
      | BadStatus \<Rightarrow> Inl RequestException
      | Body chunks \<Rightarrow>
          (case aggregate chunks [] of
             Inl e \<Rightarrow> Inl e
           | Inr pieces \<Rightarrow> Inr (strip (concat pieces))))"

definition query_ollama_cli :: "(string \<Rightarrow> string \<Rightarrow> cli_run) \<Rightarrow> string \<Rightarrow> string \<Rightarrow> exn + string" where
  "query_ollama_cli run prompt model =
     (case run prompt model of
        NotFound \<Rightarrow> Inr ''[ERROR: ollama CLI not found]''
      | SpawnFailed \<Rightarrow> Inl OSError
      | TimedOut \<Rightarrow> Inl TimeoutExpired
      | Exited returncode out err \<Rightarrow>
          if returncode = 0
          then Inr (if strip out \<noteq> [] then strip out else strip err)
          else Inr (strip (out @ err)))"

definition query_ollama ::
  "(string \<Rightarrow> string \<Rightarrow> http_run) \<Rightarrow> (string \<Rightarrow> string \<Rightarrow> cli_run) \<Rightarrow> string \<Rightarrow> string
     \<Rightarrow> exn + string" where
  \<comment> \<open>\<open>try: return query_ollama_http(...) except Exception: return query_ollama_cli(...)\<close>\<close>
  "query_ollama post run prompt model =
     (case query_ollama_http post prompt model of
        Inr reply \<Rightarrow> Inr reply
      | Inl e \<Rightarrow> query_ollama_cli run prompt model)"

section \<open>The reply sanitizer\<close>

text \<open>
  \<open>clean_reply\<close> calls \<open>re.sub\<close> four times. \<open>re.sub\<close> scans the text from the left: where
  the pattern matches, the match is replaced and the scan goes on after it; elsewhere one
  character is copied. The two label patterns are anchored: \<open>^\<close> (with \<open>re.MULTILINE\<close>)
  holds at the start of the text and after a line feed, \<open>\b\<close> holds between a word
  character and a character that is none, or an end of the text. An anchor looks at the
  character before the position in the text that is scanned, so the scan carries it.
\<close>

fun match_label :: "string list \<Rightarrow> string \<Rightarrow> (string \<times> string) option" where
  \<comment> \<open>\<open>(?:L1|L2|...):\s*\<close> at the start of the text: the match and the text after it.\<close>
  "match_label [] s = None"
| "match_label (l # ls) s =
     (case strip_prefix (l @ '':'') s of
        Some r \<Rightarrow> Some (l @ '':'' @ takeWhile is_space r, dropWhile is_space r)
      | None \<Rightarrow> match_label ls s)"

definition at_line_start :: "char option \<Rightarrow> string \<Rightarrow> bool" where
  \<comment> \<open>\<open>^\<close>\<close>
  "at_line_start prev s = (case prev of None \<Rightarrow> True | Some p \<Rightarrow> p = CHR 0x0A)"

definition at_word_boundary :: "char option \<Rightarrow> string \<Rightarrow> bool" where
  \<comment> \<open>\<open>\b\<close>\<close>
  "at_word_boundary prev s =
     ((case prev of None \<Rightarrow> False | Some p \<Rightarrow> is_word p)
      \<noteq> (case s of [] \<Rightarrow> False | c # cs \<Rightarrow> is_word c))"

lemma strip_prefix_Some: "strip_prefix p s = Some r \<Longrightarrow> s = p @ r"
proof -
  assume "strip_prefix p s = Some r"
  then have "take (length p) s = p" and "r = drop (length p) s"
    by (auto simp: strip_prefix_def split: if_splits)
  then show "s = p @ r"
    by (metis append_take_drop_id)
qed

lemma match_label_shorter: "match_label ls s = Some (m, rest) \<Longrightarrow> length rest < length s"
proof (induction ls)
  case Nil
  then show ?case by simp
next
  case (Cons l ls)
  show ?case
  proof (cases "strip_prefix (l @ '':'') s")
    case None
    with Cons show ?thesis by simp
  next
    case (Some r)
    then have "s = (l @ '':'') @ r"
      by (rule strip_prefix_Some)
    then have "length s = length l + 1 + length r"
      by (metis length_append length_append_singleton Suc_eq_plus1)
    moreover have "length (dropWhile is_space r) \<le> length r"
      by (rule length_dropWhile_le)
    moreover from Cons.prems Some have "rest = dropWhile is_space r"
      by simp
    ultimately show ?thesis by simp
  qed
qed

function sub_labels ::
  "(char option \<Rightarrow> string \<Rightarrow> bool) \<Rightarrow> string list \<Rightarrow> char option \<Rightarrow> string \<Rightarrow> string" where
  \<comment> \<open>\<open>re.sub(anchor + '(?:L1|L2|...):\s*', '', text)\<close>, from a position with the character
      \<open>prev\<close> before it.\<close>
  "sub_labels anchor alts prev [] = []"
| "sub_labels anchor alts prev (c # cs) =
     (case (if anchor prev (c # cs) then match_label alts (c # cs) else None) of
        Some (m, rest) \<Rightarrow> sub_labels anchor alts (Some (last m)) rest
      | None \<Rightarrow> c # sub_labels anchor alts (Some c) cs)"
  by pat_completeness auto
termination
  by (relation "measure (\<lambda>(anchor, alts, prev, s). length s)")
     (auto split: if_splits dest: match_label_shorter)

declare sub_labels.simps(2) [simp del]

function sub_runs :: "(char \<Rightarrow> bool) \<Rightarrow> char \<Rightarrow> string \<Rightarrow> string" where
  \<comment> \<open>\<open>re.sub('[class]{2,}', r, text)\<close>: a run of two or more characters of the class
      becomes the one character \<open>r\<close>.\<close>
  "sub_runs cls r [] = []"
| "sub_runs cls r [c] = [c]"
| "sub_runs cls r (c # d # cs) =
     (if cls c \<and> cls d then r # sub_runs cls r (dropWhile cls cs)
      else c # sub_runs cls r (d # cs))"
  by pat_completeness auto
termination
proof (relation "measure (\<lambda>(cls, r, s). length s)")
  fix cls :: "char \<Rightarrow> bool" and r c d :: char and cs :: string
  have "length (dropWhile cls cs) \<le> length cs"
    by (rule length_dropWhile_le)
  then show "((cls, r, dropWhile cls cs), (cls, r, c # d # cs)) \<in> measure (\<lambda>(cls, r, s). length s)"
    by simp
qed simp_all

declare sub_runs.simps(3) [simp del]

fun first_string_field :: "(string \<times> json) list \<Rightarrow> string list \<Rightarrow> string option" where
  \<comment> \<open>The \<open>for k in (...)\<close> loop: the value of the first key that is in the object with a
      string value.\<close>
  "first_string_field d [] = None"
| "first_string_field d (k # ks) =
     (case dict_get d k of
        Some (JStr s) \<Rightarrow> Some s
      | _ \<Rightarrow> first_string_field d ks)"

definition envelope :: "string \<Rightarrow> string option" where
  \<comment> \<open>The \<open>try\<close> block: the text to take instead, when the whole text is a JSON object
      with a string under one of the four keys.\<close>
  "envelope text =
     (case json_loads text of
        Some (JObj d) \<Rightarrow> first_string_field d [''response'', ''output'', ''text'', ''result'']
      | _ \<Rightarrow> None)"

definition strip_labels :: "string \<Rightarrow> string" where
  \<comment> \<open>The two \<open>re.sub\<close> calls that remove role labels.\<close>
  "strip_labels text =
     sub_labels at_word_boundary [''User'', ''Assistant'', ''AI'', ''System''] None
       (sub_labels at_line_start [''AI'', ''Assistant'', ''User'', ''System''] None text)"

definition collapse_whitespace :: "string \<Rightarrow> string" where
  \<comment> \<open>The two \<open>re.sub\<close> calls that collapse line feeds, then blanks and tabs.\<close>
  "collapse_whitespace text =
     sub_runs is_blank (CHR '' '') (sub_runs is_newline (CHR 0x0A) text)"

definition clean_reply :: "string \<Rightarrow> string" where
  "clean_reply text =
     (if text = [] then text
      else strip (collapse_whitespace (strip_labels
             (case envelope text of Some inner \<Rightarrow> inner | None \<Rightarrow> text))))"

section \<open>The prompt builder and the dialogue loop\<close>

type_synonym turn = "string \<rightharpoonup> string"

definition render :: "turn \<Rightarrow> string" where
  \<comment> \<open>\<open>f"{role.capitalize()}: {text}"\<close> with \<open>m.get('role', 'user')\<close> and \<open>m.get('text', '')\<close>\<close>
  "render m =
     capitalize (case m ''role'' of None \<Rightarrow> ''user'' | Some r \<Rightarrow> r) @ '': ''
     @ (case m ''text'' of None \<Rightarrow> [] | Some t \<Rightarrow> t)"

definition build_prompt :: "turn list \<Rightarrow> string \<Rightarrow> string" where
  \<comment> \<open>\<open>history[-10:]\<close> is the whole list when it has fewer than ten turns.\<close>
  "build_prompt history user_text =
     join [CHR 0x0A]
       (map render (drop (length history - 10) history)
        @ [''User: '' @ user_text] @ [''Assistant:''])"

text \<open>
  The state of \<open>main\<close>: the history, and what the loop has done to the outside world, the
  prompts it has given to \<open>query_ollama\<close> and the texts it has given to \<open>tts_say\<close>. An
  exception of \<open>tts_say\<close> is caught and printed and changes nothing in this state.
\<close>

record dialogue =
  history :: "turn list"
  requests :: "string list"
  spoken :: "string list"

datatype outcome = Continue dialogue | Abort exn dialogue

definition user_turn :: "string \<Rightarrow> turn" where
  "user_turn t = [''role'' \<mapsto> ''user'', ''text'' \<mapsto> t]"

definition assistant_turn :: "string \<Rightarrow> turn" where
  "assistant_turn t = [''role'' \<mapsto> ''assistant'', ''text'' \<mapsto> t]"

definition loop_body ::
  "bool \<Rightarrow> string \<Rightarrow> (string \<Rightarrow> string \<Rightarrow> http_run) \<Rightarrow> (string \<Rightarrow> string \<Rightarrow> cli_run)
     \<Rightarrow> exn + string \<Rightarrow> dialogue \<Rightarrow> outcome" where
  \<comment> \<open>One pass through the \<open>while True\<close> loop of \<open>main\<close>. \<open>heard\<close> is what \<open>listen_once\<close>
      did: it returned a text or raised. An exception that is not \<open>KeyboardInterrupt\<close>
      leaves the loop and \<open>main\<close>.\<close>
  "loop_body no_clean ollama_model post run heard st =
     (case heard of
        Inl e \<Rightarrow> Abort e st
      | Inr user_text \<Rightarrow>
          if user_text = [] then Continue st
          else
            (let st1 = st\<lparr>history := history st @ [user_turn user_text]\<rparr>;
                 prompt = build_prompt (history st1) user_text;
                 st2 = st1\<lparr>requests := requests st1 @ [prompt]\<rparr>
             in case query_ollama post run prompt ollama_model of
                  Inl e \<Rightarrow> Abort e st2
                | Inr reply0 \<Rightarrow>
                    (let reply1 = (if reply0 = [] then ''Sorry, I couldn't produce a response.''
                                   else reply0);
                         reply = (if no_clean then reply1 else clean_reply reply1)
                     in Continue
                          (st2\<lparr>history := history st2 @ [assistant_turn reply],
                               spoken := spoken st2 @ [reply]\<rparr>))))"

section \<open>Listening for one utterance\<close>

text \<open>
  \<open>listen_once\<close> opens the input stream and polls the frame queue. Each poll is one of:
  a frame arrived within half a second, and the recognizer either finalized a text with it
  (\<open>AcceptWaveform\<close> is true and \<open>text\<close> is read from the result) or did not; no frame
  arrived within half a second (\<open>queue.Empty\<close>); the user interrupted. Every poll carries
  the time in seconds since \<open>start\<close> at which it ended; the source reads the clock only
  after \<open>queue.Empty\<close>. Times are rational numbers. \<open>None\<close> from \<open>listen_loop\<close> says that
  the loop is still running after the polls listed.
\<close>

datatype poll = Frame rat "string option" | Empty rat | Interrupt

fun listen_loop :: "rat option \<Rightarrow> poll list \<Rightarrow> string option" where
  "listen_loop timeout [] = None"
| "listen_loop timeout (Frame now final # polls) =
     (case final of
        Some text \<Rightarrow> Some text
      | None \<Rightarrow> listen_loop timeout polls)"
| "listen_loop timeout (Empty now # polls) =
     (if (case timeout of None \<Rightarrow> False | Some t \<Rightarrow> t \<noteq> 0 \<and> now > t)
      then Some []
      else listen_loop timeout polls)"
| "listen_loop timeout (Interrupt # polls) = Some []"

definition listen_once :: "bool \<Rightarrow> rat option \<Rightarrow> poll list \<Rightarrow> (exn + string) option" where
  \<comment> \<open>\<open>opens\<close>: whether \<open>sd.RawInputStream\<close> can be opened; it raises \<open>PortAudioError\<close>
      otherwise.\<close>
  "listen_once opens timeout polls =
     (if \<not> opens then Some (Inl PortAudioError)
      else map_option Inr (listen_loop timeout polls))"

section \<open>Notions of the specification\<close>




fun split_lines :: "string \<Rightarrow> string list" where
  \<comment> \<open>The lines of a text: \<open>text.split('\n')\<close>.\<close>
  "split_lines [] = [[]]"
| "split_lines (c # cs) =
     (if c = CHR 0x0A then [] # split_lines cs
      else (case split_lines cs of
              [] \<Rightarrow> [[c]]
            | l # ls \<Rightarrow> (c # l) # ls))"

definition content_entries :: "turn list \<Rightarrow> string \<Rightarrow> string list" where
  \<comment> \<open>What stands before the cue line: the last ten turns, rendered, then the user line.\<close>
  "content_entries turns user_text =
     map render (drop (length turns - 10) turns) @ [''User: '' @ user_text]"

fun state_of :: "outcome \<Rightarrow> dialogue" where
  "state_of (Continue st) = st"
| "state_of (Abort e st) = st"

section \<open>Notions for the proofs about the sanitizer\<close>




definition word_labels :: "string list \<Rightarrow> bool" where
  \<comment> \<open>Every label is a non-empty word.\<close>
  "word_labels alts = list_all (\<lambda>l. l \<noteq> [] \<and> list_all is_word l) alts"
section \<open>Facts about the text primitives\<close>







section \<open>The generation client\<close>





text \<open>
  Claim C2: when the primary transport raises before a terminator, \<open>query_ollama\<close> returns
  what the fallback returns, and nothing of the text aggregated so far; a fallback whose
  program is not found returns the sentinel text; with a primary that raises at once and a
  fallback that prints \<open>ok\<close>, the result is \<open>ok\<close>.
\<close>

theorem query_ollama_fallback:
  "(query_ollama_http post prompt model = Inl e \<longrightarrow>
      query_ollama post run prompt model = query_ollama_cli run prompt model)
   \<and> (run prompt model = NotFound \<longrightarrow>
        query_ollama_cli run prompt model = Inr ''[ERROR: ollama CLI not found]'')
   \<and> query_ollama (\<lambda>prompt model. PostRaised) (\<lambda>prompt model. Exited 0 ''ok'' [])
        prompt model = Inr ''ok''"
  by (simp add: query_ollama_def query_ollama_cli_def query_ollama_http_def strip_def is_space_def)

theorem query_ollama_fallback_witness:
  \<open>query_ollama_http (\<lambda>prompt model. Body [Line ''{"response":"Hel"}'', Broken])
       ''hello'' ''tinyllama:1.1b'' = Inl RequestException
   \<and> query_ollama (\<lambda>prompt model. Body [Line ''{"response":"Hel"}'', Broken])
       (\<lambda>prompt model. NotFound) ''hello'' ''tinyllama:1.1b''
     = Inr ''[ERROR: ollama CLI not found]''\<close>
proof -
  have h: "query_ollama_http (\<lambda>prompt model. Body [Line ''{\"response\":\"Hel\"}'', Broken])
       ''hello'' ''tinyllama:1.1b'' = Inl RequestException"
    by code_simp
  from query_ollama_fallback
         [of "\<lambda>prompt model. Body [Line ''{\"response\":\"Hel\"}'', Broken]" "''hello''"
             "''tinyllama:1.1b''" RequestException "\<lambda>prompt model. NotFound"]
  show ?thesis using h by simp
qed

text \<open>
  A fallback command that runs to its end gives a string, whatever its return code, and
  an empty reply is replaced by the apology in the loop.
\<close>

lemma query_ollama_cli_exited:
  "run prompt model = Exited returncode out err \<Longrightarrow>
   \<exists>reply. query_ollama_cli run prompt model = Inr reply"
  by (simp add: query_ollama_cli_def)

lemma loop_body_apology:
  "user_text \<noteq> [] \<Longrightarrow> query_ollama post run
       (build_prompt (history st @ [user_turn user_text]) user_text) model = Inr [] \<Longrightarrow>
   spoken (state_of (loop_body True model post run (Inr user_text) st))
     = spoken st @ [''Sorry, I couldn't produce a response.'']"
  by (simp add: loop_body_def Let_def)

text \<open>
  Claim C3 says that \<open>query_ollama\<close> returns a string for every failure of the two
  transports, the fallback running out of time included, and that the loop goes on. When
  the primary raises and the fallback command runs out of its 60 seconds, \<open>query_ollama\<close>
  raises \<open>TimeoutExpired\<close>, and the loop is left with that exception, the user turn
  appended and no reply.
\<close>

theorem query_ollama_timeout_raises:
  "query_ollama (\<lambda>prompt model. PostRaised) (\<lambda>prompt model. TimedOut) prompt model
     = Inl TimeoutExpired
   \<and> loop_body no_clean model (\<lambda>prompt model. PostRaised) (\<lambda>prompt model. TimedOut)
       (Inr ''hello'') st
     = Abort TimeoutExpired
         (st\<lparr>history := history st @ [user_turn ''hello''],
             requests := requests st
               @ [build_prompt (history st @ [user_turn ''hello'']) ''hello'']\<rparr>)"
  by (simp add: query_ollama_def query_ollama_cli_def query_ollama_http_def loop_body_def Let_def)

section \<open>The prompt builder\<close>

lemma split_lines_not_Nil: "split_lines s \<noteq> []"
  by (induction s) (auto split: list.splits)

lemma split_lines_append:
  "split_lines (a @ CHR 0x0A # b) = split_lines a @ split_lines b"
proof (induction a)
  case Nil
  show ?case by simp
next
  case (Cons c a)
  obtain l ls where l: "split_lines a = l # ls"
    using split_lines_not_Nil [of a] by (cases "split_lines a") auto
  show ?case
    by (simp add: Cons l)
qed

lemma split_lines_one: "CHR 0x0A \<notin> set s \<Longrightarrow> split_lines s = [s]"
  by (induction s) auto

lemma join_snoc: "xs \<noteq> [] \<Longrightarrow> join sep (xs @ [y]) = join sep xs @ sep @ y"
  by (induction sep xs rule: join.induct) auto

lemma split_lines_join:
  "xs \<noteq> [] \<Longrightarrow> list_all (\<lambda>e. CHR 0x0A \<notin> set e) xs \<Longrightarrow> split_lines (join [CHR 0x0A] xs) = xs"
proof (induction "[CHR 0x0A]" xs rule: join.induct)
  case 1
  then show ?case by simp
next
  case (2 x)
  then show ?case by (simp add: split_lines_one)
next
  case (3 x y ys)
  then have "split_lines (join [CHR 0x0A] (y # ys)) = y # ys"
    by simp
  moreover have "split_lines x = [x]"
    using 3 by (simp add: split_lines_one)
  ultimately show ?case
    by (simp add: split_lines_append)
qed


text \<open>
  Claim C6, as stated: at most 11 lines stand before the final line of the prompt. A turn
  whose text has line feeds takes as many lines: with one assistant turn that is a list of
  twelve lines in the history, thirteen lines stand before the final one.
\<close>

theorem build_prompt_lines_counterexample:
  "\<not> length (butlast (split_lines
         (build_prompt [assistant_turn (join [CHR 0x0A] (replicate 12 ''- item''))] ''hi''))) \<le> 11"
  by code_simp

text \<open>
  Claim C6, amended: for every history and every new user text, \<open>build_prompt\<close> returns the
  entries below joined by line feeds: at most 11 content entries, which are the last 10
  history turns rendered as \<open>Role: text\<close> in chronological order and then \<open>User:\<close> with the
  new text, followed by \<open>Assistant:\<close>. The final line of the prompt is \<open>Assistant:\<close>. When
  no entry has a line feed in it, the lines of the prompt are these entries and the final
  line, so at most 11 lines stand before it.
\<close>

theorem build_prompt_shape:
  "build_prompt turns user_text = join [CHR 0x0A] (content_entries turns user_text @ [''Assistant:''])
   \<and> length (content_entries turns user_text) \<le> 11
   \<and> last (split_lines (build_prompt turns user_text)) = ''Assistant:''
   \<and> (list_all (\<lambda>e. CHR 0x0A \<notin> set e) (content_entries turns user_text) \<longrightarrow>
        split_lines (build_prompt turns user_text)
          = content_entries turns user_text @ [''Assistant:''])"
proof -
  let ?es = "content_entries turns user_text"
  have eq: "build_prompt turns user_text = join [CHR 0x0A] (?es @ [''Assistant:''])"
    by (simp add: build_prompt_def content_entries_def)
  have len: "length ?es \<le> 11"
    by (simp add: content_entries_def)
  have ne: "?es \<noteq> []"
    by (simp add: content_entries_def)
  then have j: "build_prompt turns user_text = join [CHR 0x0A] ?es @ [CHR 0x0A] @ ''Assistant:''"
    unfolding eq by (rule join_snoc)
  have "split_lines (build_prompt turns user_text)
      = split_lines (join [CHR 0x0A] ?es) @ split_lines ''Assistant:''"
    unfolding j using split_lines_append [of "join [CHR 0x0A] ?es" "''Assistant:''"] by simp
  then have lst: "last (split_lines (build_prompt turns user_text)) = ''Assistant:''"
    by simp
  have "split_lines (build_prompt turns user_text) = ?es @ [''Assistant:'']"
    if "list_all (\<lambda>e. CHR 0x0A \<notin> set e) ?es"
  proof -
    from that have "list_all (\<lambda>e. CHR 0x0A \<notin> set e) (?es @ [''Assistant:''])"
      by simp
    then show ?thesis
      unfolding eq using split_lines_join [of "?es @ [''Assistant:'']"] by simp
  qed
  with eq len lst show ?thesis by blast
qed

theorem build_prompt_shape_witness:
  "list_all (\<lambda>e. CHR 0x0A \<notin> set e)
     (content_entries [user_turn ''hi'', assistant_turn ''hello''] ''bye'')
   \<and> split_lines (build_prompt [user_turn ''hi'', assistant_turn ''hello''] ''bye'')
       = [''User: hi'', ''Assistant: hello'', ''User: bye'', ''Assistant:'']"
proof -
  have h: "content_entries [user_turn ''hi'', assistant_turn ''hello''] ''bye''
      = [''User: hi'', ''Assistant: hello'', ''User: bye'']"
    by (simp add: content_entries_def render_def user_turn_def assistant_turn_def
          to_upper_def to_lower_def)
  have a: "list_all (\<lambda>e. CHR 0x0A \<notin> set e)
     (content_entries [user_turn ''hi'', assistant_turn ''hello''] ''bye'')"
    unfolding h by simp
  from build_prompt_shape [of "[user_turn ''hi'', assistant_turn ''hello'']" "''bye''"] a
  have "split_lines (build_prompt [user_turn ''hi'', assistant_turn ''hello''] ''bye'')
      = content_entries [user_turn ''hi'', assistant_turn ''hello''] ''bye'' @ [''Assistant:'']"
    by blast
  with a h show ?thesis by simp
qed

section \<open>The dialogue loop\<close>

text \<open>
  Claim C7: when the recognized text is empty, the pass through the loop leaves the state
  as it is: the history is unchanged, and no prompt is given to \<open>query_ollama\<close>.
\<close>

theorem empty_utterance_no_effect:
  "loop_body no_clean model post run (Inr []) st = Continue st"
  by (simp add: loop_body_def)



section \<open>The listening timeout\<close>

text \<open>
  The timeout does end the loop at a poll that finds the queue empty after more than the
  timeout has passed, when the timeout is not zero.
\<close>

lemma listen_once_times_out_when_starved:
  "t \<noteq> 0 \<Longrightarrow> t < now \<Longrightarrow> listen_once True (Some t) (Empty now # polls) = Some (Inr [])"
  by (simp add: listen_once_def)

lemma listen_once_zero_timeout_is_none:
  "listen_once True (Some 0) polls = listen_once True None polls"
proof -
  have "listen_loop (Some 0) polls = listen_loop None polls"
  proof (induction polls)
    case Nil
    show ?case by simp
  next
    case (Cons p polls)
    then show ?case by (cases p) (simp_all split: option.splits)
  qed
  then show ?thesis by (simp add: listen_once_def)
qed

text \<open>
  Claim C8 says that \<open>listen_once\<close> returns the empty text once more than the timeout has
  passed without a final result, also when frames keep arriving. The source compares the
  clock with the timeout only after \<open>queue.Empty\<close>. While every poll brings a frame that
  the recognizer does not finalize, the loop is still running after any number of polls,
  whatever the timeout and whatever the times of the polls.
\<close>

theorem listen_once_frames_never_time_out:
  "listen_once True timeout (map (\<lambda>now. Frame now None) clocks) = None"
proof -
  have "listen_loop timeout (map (\<lambda>now. Frame now None) clocks) = None"
    by (induction clocks) simp_all
  then show ?thesis
    by (simp add: listen_once_def)
qed

section \<open>The sanitizer leaves nothing to remove\<close>

text \<open>
  What \<open>clean_reply\<close> returns, before it looks for an envelope, is a fixed point of its
  three text passes: no label stands at a word boundary, no two line feeds and no two
  blanks or tabs stand side by side, and no whitespace stands at either end.
\<close>

subsection \<open>Labels\<close>






























subsection \<open>Runs of whitespace and the two ends\<close>














subsection \<open>The three passes together\<close>

lemma word_labels_line: "word_labels [''AI'', ''Assistant'', ''User'', ''System'']"
  by (simp add: word_labels_def is_word_def)











section \<open>The sanitizer on the example of the specification\<close>

text \<open>
  Claim C4, as stated: \<open>clean_reply\<close> turns the reply \<open>User: hi Assistant:  Hello   there\<close>,
  three line feeds and \<open>friend\<close> into \<open>Hello there\<close>, a line feed and \<open>friend\<close>. It does not:
  the two label patterns match the labels and the whitespace after them, and the word
  \<open>hi\<close> between the two labels stays.
\<close>

theorem clean_reply_example_counterexample:
  "clean_reply (''User: hi Assistant:  Hello   there'' @ [CHR 0x0A, CHR 0x0A, CHR 0x0A] @ ''friend'')
     \<noteq> ''Hello there'' @ [CHR 0x0A] @ ''friend''"
  by code_simp

text \<open>
  Claim C4, amended: \<open>clean_reply\<close> turns that reply into \<open>hi Hello there\<close>, a line feed and
  \<open>friend\<close>.
\<close>

theorem clean_reply_example:
  "clean_reply (''User: hi Assistant:  Hello   there'' @ [CHR 0x0A, CHR 0x0A, CHR 0x0A] @ ''friend'')
     = ''hi Hello there'' @ [CHR 0x0A] @ ''friend''"
  by code_simp

section \<open>Idempotence of the sanitizer\<close>





section \<open>Word error rate with an empty reference\<close>





end
